theory Spec2Isabelle
  imports Main "HOL-Library.Word"
begin

section \<open>The backend contract of the SMTP server package\<close>

text \<open>
  The source file \<^verbatim>\<open>backend.go\<close> declares the two sentinel errors, the
  \<^verbatim>\<open>MailOptions\<close> struct, the \<^verbatim>\<open>BodyType\<close> constants and the interfaces
  \<^verbatim>\<open>Backend\<close>, \<^verbatim>\<open>Session\<close>, \<^verbatim>\<open>LMTPSession\<close> and \<^verbatim>\<open>StatusCollector\<close>.
  The interfaces have no method bodies: what a method does is fixed by its signature and by
  its doc comment only.
\<close>

subsection \<open>Error values\<close>

text \<open>
  \<^verbatim>\<open>SMTPError\<close> and \<^verbatim>\<open>EnhancedCode\<close> are declared in another file of the package.
  The composite literals of lines 10 to 19 fix what is used of them: the fields
  \<^verbatim>\<open>Code\<close>, \<^verbatim>\<open>EnhancedCode\<close> (a literal of three integers) and \<^verbatim>\<open>Message\<close>.
\<close>

type_synonym EnhancedCode = "int \<times> int \<times> int"

record SMTPError =
  Code :: int
  EnhancedCode :: EnhancedCode
  Message :: string

text \<open>
  Both sentinels are \<^verbatim>\<open>&SMTPError{...}\<close>: pointers to a struct allocated when the
  package is initialised. A pointer is an index into the store of allocated structs;
  \<open>alloc\<close> is Go's \<^verbatim>\<open>&T{...}\<close> (a fresh address each time) and \<open>deref\<close> reads
  through a pointer.
\<close>

type_synonym ptr = nat

type_synonym store = "SMTPError list"

definition alloc :: "SMTPError \<Rightarrow> store \<Rightarrow> ptr \<times> store" where
  "alloc v h = (length h, h @ [v])"

definition deref :: "store \<Rightarrow> ptr \<Rightarrow> SMTPError option" where
  "deref h p = (if p < length h then Some (h ! p) else None)"

text \<open>The \<^verbatim>\<open>var (...)\<close> block of lines 9 to 20, run on the empty store.\<close>

definition package_init :: "(ptr \<times> ptr) \<times> store" where
  "package_init =
     (case alloc \<lparr>Code = 502, EnhancedCode = (5, 7, 0),
                   Message = ''Please authenticate first''\<rparr> [] of
        (a, h1) \<Rightarrow>
          (case alloc \<lparr>Code = 502, EnhancedCode = (5, 7, 0),
                        Message = ''Authentication not supported''\<rparr> h1 of
             (u, h2) \<Rightarrow> ((a, u), h2)))"

definition ErrAuthRequired :: ptr where
  "ErrAuthRequired = fst (fst package_init)"

definition ErrAuthUnsupported :: ptr where
  "ErrAuthUnsupported = snd (fst package_init)"

definition package_store :: store where
  "package_store = snd package_init"

text \<open>
  A value of Go's \<^verbatim>\<open>error\<close> interface: \<open>None\<close> is \<^verbatim>\<open>nil\<close>; a non-nil value is
  either a \<^verbatim>\<open>*SMTPError\<close> or \<open>OtherError t\<close>, an error of a string-based value type
  with the text \<open>t\<close>. Errors of other pointer types, such as those that
  \<^verbatim>\<open>errors.New\<close> makes, are compared by their address and have no place in this type.
  \<open>error_eq\<close> is Go's \<^verbatim>\<open>==\<close> on two values of the type: the dynamic types must agree,
  two \<^verbatim>\<open>*SMTPError\<close> are equal when they are the same pointer, and two values of the
  string-based type are equal when their strings are. The store is not an argument: the
  comparison of two pointers never reads a field.
\<close>

datatype error = SMTPErrorPtr ptr | OtherError string

type_synonym err = "error option"

fun error_eq :: "err \<Rightarrow> err \<Rightarrow> bool" where
  "error_eq None None = True"
| "error_eq (Some (SMTPErrorPtr p)) (Some (SMTPErrorPtr q)) = (p = q)"
| "error_eq (Some (OtherError a)) (Some (OtherError b)) = (a = b)"
| "error_eq _ _ = False"

subsection \<open>Mail options\<close>

type_synonym BodyType = string

definition Body7Bit :: BodyType where
  "Body7Bit = ''7BIT''"

definition Body8BitMIME :: BodyType where
  "Body8BitMIME = ''8BITMIME''"

definition BodyBinaryMIME :: BodyType where
  "BodyBinaryMIME = ''BINARYMIME''"

text \<open>
  \<^verbatim>\<open>MailOptions\<close>, lines 37 to 62. \<^verbatim>\<open>Size\<close> is a Go \<^verbatim>\<open>int\<close>: a signed machine
  integer, 64 bits wide on the usual platforms, read with \<open>sint\<close>. \<^verbatim>\<open>Auth\<close> is a
  \<^verbatim>\<open>*string\<close>: \<open>None\<close> is the nil pointer, \<open>Some s\<close> a pointer to the string \<open>s\<close>.
\<close>

record MailOptions =
  Body :: BodyType
  Size :: "64 word"
  RequireTLS :: bool
  UTF8 :: bool
  Auth :: "string option"

text \<open>The zero value \<^verbatim>\<open>MailOptions{}\<close>.\<close>

definition MailOptions_zero :: MailOptions where
  "MailOptions_zero =
     \<lparr>Body = [], Size = 0, RequireTLS = False, UTF8 = False, Auth = None\<rparr>"

text \<open>
  What the \<^verbatim>\<open>Auth\<close> field stands for, after the comment of lines 57 and 58: a nil value
  is a missing AUTH parameter, a non-nil empty string is \<^verbatim>\<open>AUTH=<>\<close>, any other string
  is the asserted identity.
\<close>

datatype auth_param = AuthMissing | AuthEmpty | AuthIdentity string

definition auth_param_of :: "MailOptions \<Rightarrow> auth_param" where
  "auth_param_of opts =
     (case Auth opts of
        None \<Rightarrow> AuthMissing
      | Some a \<Rightarrow> (case a of [] \<Rightarrow> AuthEmpty | _ # _ \<Rightarrow> AuthIdentity a))"

text \<open>
  \<^verbatim>\<open>Mail\<close> takes \<^verbatim>\<open>opts *MailOptions\<close>: a pointer that may be nil. Reading a field
  through it, as in \<^verbatim>\<open>opts.Size\<close>, panics on nil; \<open>read_field\<close> is that read, with
  the panic as a value. \<open>read_field_guarded\<close> is the same read behind
  \<^verbatim>\<open>if opts != nil\<close>, with a default for the nil case.
\<close>

datatype panic = NilPointerDereference

definition read_field :: "(MailOptions \<Rightarrow> 'a) \<Rightarrow> MailOptions option \<Rightarrow> panic + 'a" where
  "read_field f opts =
     (case opts of None \<Rightarrow> Inl NilPointerDereference | Some v \<Rightarrow> Inr (f v))"

definition read_field_guarded ::
  "(MailOptions \<Rightarrow> 'a) \<Rightarrow> 'a \<Rightarrow> MailOptions option \<Rightarrow> panic + 'a" where
  "read_field_guarded f d opts =
     (case opts of None \<Rightarrow> Inr d | Some _ \<Rightarrow> read_field f opts)"

subsection \<open>Body streams\<close>

text \<open>
  Modelled from the spec: the byte stream of a message body. The methods take it as an
  \<^verbatim>\<open>io.Reader\<close> of Go's standard library, which is declared outside the sources; the
  specification describes it as "a sequential, read-once source of bytes". A stream is the
  list of what its next reads will yield, a chunk of bytes or a failure; \<open>Read\<close> takes
  the first step off the stream and reports the end of the stream when nothing is left.
\<close>

type_synonym byte = "8 word"

datatype read_step = Chunk "byte list" | Failure error

type_synonym reader = "read_step list"

datatype read_result = Got "byte list" | EOF | Failed error

fun Read :: "reader \<Rightarrow> read_result \<times> reader" where
  "Read [] = (EOF, [])"
| "Read (Chunk bs # rest) = (Got bs, rest)"
| "Read (Failure e # rest) = (Failed e, rest)"

text \<open>
  Modelled from the spec: the draining of the body stream inside a body submission, which
  "must fully consume bodyStream before returning". No method body that reads a stream is
  among the sources. The loop reads until the end of the stream or the first failure and
  collects the bytes; it returns the bytes read, the failure if there was one, and the
  stream as the loop left it.
\<close>

function ReadAll :: "reader \<Rightarrow> byte list \<Rightarrow> byte list \<times> err \<times> reader" where
  "ReadAll r acc =
     (case Read r of
        (Got bs, r') \<Rightarrow> ReadAll r' (acc @ bs)
      | (EOF, r') \<Rightarrow> (acc, None, r')
      | (Failed e, r') \<Rightarrow> (acc, Some e, r'))"
  by pat_completeness auto
termination
proof (relation "measure (\<lambda>(r, acc). length r)")
  show "wf (measure (\<lambda>(r, acc). length r))" by simp
next
  fix r :: reader and acc :: "byte list" and x bs r'
  assume "(x, r') = Read r" and "x = Got bs"
  then have "Read r = (Got bs, r')" by simp
  then have "length r' < length r"
    by (cases r rule: Read.cases) auto
  then show "((r', acc @ bs), (r, acc)) \<in> measure (\<lambda>(r, acc). length r)" by simp
qed

declare ReadAll.simps [simp del]

subsection \<open>Sessions\<close>

text \<open>
  The \<^verbatim>\<open>Session\<close> and \<^verbatim>\<open>LMTPSession\<close> interfaces, lines 67 to 107, declare their
  methods without a body, and no implementation of them is among the sources. Everything
  in this subsection and the next two is therefore a model of a session written from the
  specification; the doc comments of the source are quoted where they say the same. The
  methods for authentication, \<^verbatim>\<open>Logout\<close> and \<^verbatim>\<open>Data\<close> are not needed below and are
  left out.
\<close>

text \<open>
  Modelled from the spec: the state of a session, of which the sources have no
  implementation: the transaction in progress, with its sender, its options, its
  recipient entries and the body read so far ("sender, recipients, partial body").
\<close>

record session =
  return_path :: "string option"
  mail_options :: "MailOptions option"
  recipients :: "string list"
  contents :: "byte list"

text \<open>
  Modelled from the spec: the application logic behind a session, which the specification
  leaves to the implementer and of which the sources have nothing. Its decisions are
  parameters: the verdict on a sender, on a recipient and on a submitted message, and for
  LMTP the status it sets for a recipient (\<open>None\<close> when it sets none and "intends that
  recipient to receive the method's own return value").
\<close>

record decisions =
  mail_verdict :: "string \<Rightarrow> MailOptions option \<Rightarrow> err"
  rcpt_verdict :: "string \<Rightarrow> err"
  data_verdict :: "session \<Rightarrow> err"
  rcpt_status :: "string \<Rightarrow> byte list \<Rightarrow> err option"

text \<open>
  Modelled from the spec: \<^verbatim>\<open>Backend.NewSession\<close>, declared without a body at line 24.
  A new session has no transaction in progress. The connection context is opaque to the
  contract and is left out.
\<close>

definition NewSession :: "session \<times> err" where
  "NewSession =
     (\<lparr>return_path = None, mail_options = None, recipients = [], contents = []\<rparr>, None)"

text \<open>
  Modelled from the spec: \<^verbatim>\<open>Session.Reset\<close>, declared without a body at line 69
  ("Discard currently processed message"). The specification: it "discards any in-progress
  transaction state (sender, recipients, partial body) unconditionally". The declared
  signature \<^verbatim>\<open>Reset()\<close> has no result, so the method has no error to return.
\<close>

definition Reset :: "session \<Rightarrow> session" where
  "Reset s = s\<lparr>return_path := None, mail_options := None, recipients := [], contents := []\<rparr>"

text \<open>
  Modelled from the spec: \<^verbatim>\<open>Session.Mail\<close>, declared without a body at line 81 ("Set
  return path for currently processed message"). The specification: \<^verbatim>\<open>setSender\<close>
  "begins a transaction" and fails when the implementer's policy says so. The policy is
  the parameter \<open>mail_verdict\<close>; an accepted call records the sender and the options as
  they were passed, a rejected call changes nothing.
\<close>

definition Mail ::
  "decisions \<Rightarrow> string \<Rightarrow> MailOptions option \<Rightarrow> session \<Rightarrow> err \<times> session" where
  "Mail d from opts s =
     (case mail_verdict d from opts of
        Some e \<Rightarrow> (Some e, s)
      | None \<Rightarrow> (None, s\<lparr>return_path := Some from, mail_options := opts\<rparr>))"

text \<open>
  Modelled from the spec: \<^verbatim>\<open>Session.Rcpt\<close>, declared without a body at line 83 ("Add
  recipient for currently processed message"). The specification: \<^verbatim>\<open>addRecipient\<close>
  "may be called multiple times; duplicate addresses are permitted and must each still be
  tracked as distinct recipient entries". An accepted call adds an entry, a rejected call
  changes nothing.
\<close>

definition Rcpt :: "decisions \<Rightarrow> string \<Rightarrow> session \<Rightarrow> err \<times> session" where
  "Rcpt d to s =
     (case rcpt_verdict d to of
        Some e \<Rightarrow> (Some e, s)
      | None \<Rightarrow> (None, s\<lparr>recipients := recipients s @ [to]\<rparr>))"

text \<open>
  Modelled from the spec: a caller that adds the addresses of a list by one
  \<^verbatim>\<open>addRecipient\<close> call each, in order (the server's command loop is not among the
  sources).
\<close>

definition add_recipients :: "decisions \<Rightarrow> string list \<Rightarrow> session \<Rightarrow> session" where
  "add_recipients d as s = fold (\<lambda>a s. snd (Rcpt d a s)) as s"

subsection \<open>The LMTP extension\<close>

text \<open>
  Modelled from the spec: the status sink. \<^verbatim>\<open>StatusCollector\<close>, lines 111 to 113,
  declares the one method \<^verbatim>\<open>SetStatus(rcptTo string, err error)\<close> and the sources have
  no implementation of it; the specification calls it "a write-only sink". A collector is
  a function of the address, the status and the collector's own state; \<open>SetStatus\<close> below
  is the collector that writes every call down, in order.
\<close>

type_synonym status_log = "(string \<times> err) list"

definition SetStatus :: "string \<Rightarrow> err \<Rightarrow> status_log \<Rightarrow> status_log" where
  "SetStatus rcptTo e log = log @ [(rcptTo, e)]"

text \<open>
  Modelled from the spec: the reporting loop of \<^verbatim>\<open>submitBodyWithStatus\<close>, of which the
  sources have no code. The specification: "for every recipient added via addRecipient in
  the current transaction, the implementation must call the status sink exactly once with
  that recipient's address and its outcome, unless it intends that recipient to receive
  the method's own return value". The loop goes through the recipient entries in the
  order they were added and sets the status the application has for each.
\<close>

fun set_statuses ::
  "decisions \<Rightarrow> (string \<Rightarrow> err \<Rightarrow> 'c \<Rightarrow> 'c) \<Rightarrow> byte list \<Rightarrow> string list \<Rightarrow> 'c \<Rightarrow> 'c" where
  "set_statuses d status bs [] c = c"
| "set_statuses d status bs (a # rest) c =
     set_statuses d status bs rest
       (case rcpt_status d a bs of None \<Rightarrow> c | Some e \<Rightarrow> status a e c)"

text \<open>
  Modelled from the spec: \<^verbatim>\<open>LMTPSession.LMTPData\<close>, declared without a body at line
  106. The specification: \<^verbatim>\<open>submitBodyWithStatus\<close> "must fully consume bodyStream before
  returning", reports through the sink, and returns its own outcome. The stream is
  consumed first; when reading fails, the failure is the result, no status is set and the
  transaction keeps the partial body.
\<close>

definition LMTPData ::
  "decisions \<Rightarrow> reader \<Rightarrow> (string \<Rightarrow> err \<Rightarrow> 'c \<Rightarrow> 'c) \<Rightarrow> 'c \<Rightarrow> session
     \<Rightarrow> err \<times> reader \<times> 'c \<times> session" where
  "LMTPData d r status c s =
     (case ReadAll r [] of
        (bs, Some e, r') \<Rightarrow> (Some e, r', c, s\<lparr>contents := bs\<rparr>)
      | (bs, None, r') \<Rightarrow>
          (data_verdict d (s\<lparr>contents := bs\<rparr>), r',
           set_statuses d status bs (recipients s) c, s\<lparr>contents := bs\<rparr>))"

subsection \<open>The outcome of each recipient\<close>

text \<open>
  Modelled from the spec: the server's side of the LMTP extension, which turns the
  statuses collected during \<^verbatim>\<open>LMTPData\<close> and the method's return value into one outcome
  per recipient. That code is not among the sources; the source states its rule in the
  doc comment of lines 104 and 105 ("Return value of LMTPData itself is used as a status
  for recipients that got no status set before using StatusCollector"), and the
  specification says the same: recipients for which no explicit status was set receive the
  method's return value as their shared fallback outcome. \<open>take_status\<close> takes the first
  status that was set for an address out of the log.
\<close>

fun take_status :: "string \<Rightarrow> status_log \<Rightarrow> (err \<times> status_log) option" where
  "take_status a [] = None"
| "take_status a ((x, e) # rest) =
     (if x = a then Some (e, rest)
      else (case take_status a rest of
              None \<Rightarrow> None
            | Some (e', rest') \<Rightarrow> Some (e', (x, e) # rest')))"

text \<open>
  Modelled from the spec: the outcomes of the recipient entries, in the order the
  recipients were added (the server's code for it is not among the sources). An entry
  takes the next status set for its address; when none is left it takes the return value.
\<close>

fun recipient_statuses :: "string list \<Rightarrow> status_log \<Rightarrow> err \<Rightarrow> (string \<times> err) list" where
  "recipient_statuses [] log ret = []"
| "recipient_statuses (a # rest) log ret =
     (case take_status a log of
        None \<Rightarrow> (a, ret) # recipient_statuses rest log ret
      | Some (e, log') \<Rightarrow> (a, e) # recipient_statuses rest log' ret)"

text \<open>
  Modelled from the spec: \<^verbatim>\<open>submitBodyWithStatus\<close> as the server runs it (its code is not
  among the sources): \<^verbatim>\<open>LMTPData\<close> is called with a fresh collector, and the outcomes
  are worked out when it has returned.
\<close>

definition submitBodyWithStatus ::
  "decisions \<Rightarrow> reader \<Rightarrow> session \<Rightarrow> (string \<times> err) list \<times> err \<times> reader \<times> session" where
  "submitBodyWithStatus d r s =
     (case LMTPData d r SetStatus [] s of
        (ret, r', log, s') \<Rightarrow> (recipient_statuses (recipients s) log ret, ret, r', s'))"

text \<open>The statuses that a list of address and status pairs holds for one address, in order.\<close>

definition statuses_for :: "string \<Rightarrow> (string \<times> err) list \<Rightarrow> err list" where
  "statuses_for a log = map snd (filter (\<lambda>p. fst p = a) log)"

subsection \<open>Two applications\<close>

text \<open>
  Modelled from the spec: two instances of the application logic, for the scenarios of the
  specification. The first accepts everything and sets the status "accepted" for every
  recipient; the second sets a status for \<open>bob\<close> only, a full mailbox, and returns nil.
\<close>

definition accept_all :: decisions where
  "accept_all =
     \<lparr>mail_verdict = (\<lambda>from opts. None), rcpt_verdict = (\<lambda>to. None),
      data_verdict = (\<lambda>s. None), rcpt_status = (\<lambda>a bs. Some None)\<rparr>"

definition bob_mailbox_full :: decisions where
  "bob_mailbox_full =
     \<lparr>mail_verdict = (\<lambda>from opts. None), rcpt_verdict = (\<lambda>to. None),
      data_verdict = (\<lambda>s. None),
      rcpt_status = (\<lambda>a bs. if a = ''bob'' then Some (Some (OtherError ''mailbox full''))
                             else None)\<rparr>"

section \<open>Properties\<close>

subsection \<open>The sentinels\<close>

lemma package_init_eval:
  "package_init =
     ((0, 1),
      [\<lparr>Code = 502, EnhancedCode = (5, 7, 0), Message = ''Please authenticate first''\<rparr>,
       \<lparr>Code = 502, EnhancedCode = (5, 7, 0), Message = ''Authentication not supported''\<rparr>])"
  by (simp add: package_init_def alloc_def)

text \<open>
  Claim C2. \<^verbatim>\<open>ErrAuthRequired\<close> and \<^verbatim>\<open>ErrAuthUnsupported\<close> both carry reply code 502
  and enhanced code 5.7.0. A reference to a sentinel is the pointer the package variable
  holds, so two references to the same sentinel are equal under Go's \<^verbatim>\<open>==\<close>, which
  compares pointers and reads no message. The two sentinels are different values although
  their codes agree, and an error built afresh with the very fields of
  \<^verbatim>\<open>ErrAuthRequired\<close>, message included, is not equal to it.
\<close>

theorem sentinel_errors:
  "map_option Code (deref package_store ErrAuthRequired) = Some 502
   \<and> map_option EnhancedCode (deref package_store ErrAuthRequired) = Some (5, 7, 0)
   \<and> map_option Code (deref package_store ErrAuthUnsupported) = Some 502
   \<and> map_option EnhancedCode (deref package_store ErrAuthUnsupported) = Some (5, 7, 0)
   \<and> error_eq (Some (SMTPErrorPtr ErrAuthRequired)) (Some (SMTPErrorPtr ErrAuthRequired))
   \<and> error_eq (Some (SMTPErrorPtr ErrAuthUnsupported)) (Some (SMTPErrorPtr ErrAuthUnsupported))
   \<and> \<not> error_eq (Some (SMTPErrorPtr ErrAuthRequired)) (Some (SMTPErrorPtr ErrAuthUnsupported))
   \<and> (case alloc \<lparr>Code = 502, EnhancedCode = (5, 7, 0),
                    Message = ''Please authenticate first''\<rparr> package_store of
         (p, h) \<Rightarrow>
           deref h p = deref h ErrAuthRequired
           \<and> \<not> error_eq (Some (SMTPErrorPtr p)) (Some (SMTPErrorPtr ErrAuthRequired)))"
  by (simp add: ErrAuthRequired_def ErrAuthUnsupported_def package_store_def
      package_init_eval deref_def alloc_def)

subsection \<open>Mail options\<close>

text \<open>
  Claim C6. An absent \<^verbatim>\<open>Auth\<close> (nil) and a present, empty one (a pointer to the empty
  string) are different states of the options: the nil test tells them apart, they stand
  for different parameters (no AUTH, and \<^verbatim>\<open>AUTH=<>\<close>), and each state is recognised
  from the parameter it stands for. Setting any other field leaves the state as it is;
  the source declares no operation on the options besides.
\<close>

theorem auth_absent_and_empty_distinct:
  "opts\<lparr>Auth := None\<rparr> \<noteq> opts\<lparr>Auth := Some []\<rparr>
   \<and> Auth (opts\<lparr>Auth := None\<rparr>) \<noteq> Auth (opts\<lparr>Auth := Some []\<rparr>)
   \<and> auth_param_of (opts\<lparr>Auth := None\<rparr>) = AuthMissing
   \<and> auth_param_of (opts\<lparr>Auth := Some []\<rparr>) = AuthEmpty
   \<and> (auth_param_of opts = AuthMissing) = (Auth opts = None)
   \<and> (auth_param_of opts = AuthEmpty) = (Auth opts = Some [])
   \<and> auth_param_of (opts\<lparr>Body := b, Size := n, RequireTLS := t, UTF8 := u\<rparr>)
       = auth_param_of opts"
proof -
  have "opts\<lparr>Auth := None\<rparr> \<noteq> opts\<lparr>Auth := Some []\<rparr>"
  proof
    assume "opts\<lparr>Auth := None\<rparr> = opts\<lparr>Auth := Some []\<rparr>"
    then have "Auth (opts\<lparr>Auth := None\<rparr>) = Auth (opts\<lparr>Auth := Some []\<rparr>)"
      by (rule arg_cong)
    then show False by simp
  qed
  moreover have "(auth_param_of opts = AuthMissing) = (Auth opts = None)"
    by (simp add: auth_param_of_def split: option.split list.split)
  moreover have "(auth_param_of opts = AuthEmpty) = (Auth opts = Some [])"
    by (simp add: auth_param_of_def split: option.split list.split)
  ultimately show ?thesis
    by (simp add: auth_param_of_def)
qed

text \<open>
  Claim C9, as amended. \<^verbatim>\<open>Size\<close> is a signed machine integer that nothing in the source
  restricts: every value of the range of a Go \<^verbatim>\<open>int\<close>, the negative ones included, is
  the \<^verbatim>\<open>Size\<close> of some options. The options for which nothing was specified (the zero
  value) have \<^verbatim>\<open>Size\<close> 0, which the source documents as "not specified by client".
\<close>

theorem size_is_signed_int:
  assumes "- (2 ^ 63) \<le> n" and "n < 2 ^ 63"
  shows "sint (Size (opts\<lparr>Size := word_of_int n\<rparr>)) = n
         \<and> sint (Size MailOptions_zero) = 0"
proof -
  have "sint (word_of_int n :: 64 word) = n"
    using assms by (simp add: sint_sbintrunc' signed_take_bit_int_eq_self)
  then show ?thesis
    by (simp add: MailOptions_zero_def)
qed

theorem size_is_signed_int_witness:
  "sint (Size (MailOptions_zero\<lparr>Size := word_of_int (- 1)\<rparr>)) = - 1
   \<and> sint (Size MailOptions_zero) = 0"
  using size_is_signed_int [of "- 1" MailOptions_zero] by simp

text \<open>
  The claim as the specification states it, that \<^verbatim>\<open>Size\<close> is non-negative for every
  options value, fails at the options whose \<^verbatim>\<open>Size\<close> is \<open>-1\<close>.
\<close>

theorem size_nonneg_counterexample:
  "\<not> 0 \<le> sint (Size (MailOptions_zero\<lparr>Size := - 1\<rparr>))"
  by simp

text \<open>
  Claim C10. The options of \<^verbatim>\<open>Mail\<close> are a pointer: nil is a value of its own, different
  from a pointer to the zero-valued struct. Reading any field through the pointer panics
  on nil and yields the field otherwise, so the unguarded read is not total; the read
  behind a nil test returns a value for every argument.
\<close>

theorem nil_options_need_a_guard:
  "(None :: MailOptions option) \<noteq> Some MailOptions_zero
   \<and> read_field f None = Inl NilPointerDereference
   \<and> read_field f (Some v) = Inr (f v)
   \<and> read_field_guarded f d opts = Inr (case opts of None \<Rightarrow> d | Some v \<Rightarrow> f v)"
  by (simp add: read_field_def read_field_guarded_def split: option.split)

subsection \<open>Consuming a stream\<close>

lemma ReadAll_Nil: "ReadAll [] acc = (acc, None, [])"
  by (simp add: ReadAll.simps)

lemma ReadAll_Chunk: "ReadAll (Chunk bs # rest) acc = ReadAll rest (acc @ bs)"
  by (subst ReadAll.simps) simp

subsection \<open>Reset\<close>

lemma recipients_add_recipients:
  "recipients (add_recipients d as s) = recipients s @ filter (\<lambda>a. rcpt_verdict d a = None) as"
  unfolding add_recipients_def
  by (induction as arbitrary: s) (auto simp: Rcpt_def split: option.split)

lemma Reset_idle:
  "Reset s = \<lparr>return_path = None, mail_options = None, recipients = [], contents = []\<rparr>"
  by (cases s) (simp add: Reset_def)

text \<open>
  Claim C5. \<^verbatim>\<open>Reset\<close> has no error to return. From every state of the session it
  leads to the state of a new session: sender, options, recipient entries and the body
  read so far are gone, whatever they were. A second \<^verbatim>\<open>Reset\<close> changes nothing. A
  \<^verbatim>\<open>Mail\<close> after a \<^verbatim>\<open>Reset\<close> either is rejected and leaves that empty state, or
  begins a transaction that holds the new sender and options and nothing else; and the
  recipients of the transaction are then exactly the addresses accepted after the
  \<^verbatim>\<open>Reset\<close>, none from before. For one, a session that held the recipient \<open>eve\<close> and a
  partial body holds only \<open>bob\<close> after \<^verbatim>\<open>Reset\<close>, \<^verbatim>\<open>Mail\<close> and \<^verbatim>\<open>Rcpt\<close> of \<open>bob\<close>.
\<close>

theorem reset_discards_transaction:
  "Reset s = \<lparr>return_path = None, mail_options = None, recipients = [], contents = []\<rparr>
   \<and> Reset s = fst NewSession
   \<and> Reset (Reset s) = Reset s
   \<and> Mail d from opts (Reset s) =
       (case mail_verdict d from opts of
          Some e \<Rightarrow> (Some e, fst NewSession)
        | None \<Rightarrow>
            (None, \<lparr>return_path = Some from, mail_options = opts,
                    recipients = [], contents = []\<rparr>))
   \<and> recipients (add_recipients d as (snd (Mail d from opts (Reset s))))
       = filter (\<lambda>a. rcpt_verdict d a = None) as
   \<and> recipients
        (add_recipients accept_all [''bob'']
           (snd (Mail accept_all ''alice'' None
                   (Reset \<lparr>return_path = Some ''mallory'', mail_options = None,
                           recipients = [''eve''], contents = [104]\<rparr>))))
       = [''bob'']"
proof -
  have idle: "Reset s = fst NewSession" for s
    by (simp add: Reset_idle NewSession_def)
  have mail: "Mail d from opts (fst NewSession) =
       (case mail_verdict d from opts of
          Some e \<Rightarrow> (Some e, fst NewSession)
        | None \<Rightarrow>
            (None, \<lparr>return_path = Some from, mail_options = opts,
                    recipients = [], contents = []\<rparr>))"
    by (simp add: Mail_def NewSession_def split: option.split)
  have none: "recipients (snd (Mail d a opts (fst NewSession))) = []" for d a opts
    by (simp add: Mail_def NewSession_def split: option.split)
  have rcpts: "recipients (add_recipients d as (snd (Mail d a opts (fst NewSession))))
       = filter (\<lambda>a. rcpt_verdict d a = None) as" for d as a opts
    by (simp add: recipients_add_recipients none)
  have bob: "filter (\<lambda>a. rcpt_verdict accept_all a = None) [''bob''] = [''bob'']"
    by (simp add: accept_all_def)
  show ?thesis
    unfolding idle
    using mail rcpts [of d as "from" opts] rcpts [of accept_all "[''bob'']" "''alice''" None] bob
    by (simp add: NewSession_def)
qed

subsection \<open>Outcomes\<close>

lemma take_status_None: "(take_status a log = None) = (statuses_for a log = [])"
  by (induction log) (auto simp: statuses_for_def split: option.split)

lemma take_status_Some:
  "take_status a log = Some (e, log') \<Longrightarrow>
     statuses_for a log = e # statuses_for a log'
     \<and> (b \<noteq> a \<longrightarrow> statuses_for b log' = statuses_for b log)"
proof (induction log arbitrary: log')
  case Nil
  then show ?case by simp
next
  case (Cons p log)
  obtain x f where p: "p = (x, f)" by (cases p)
  show ?case
  proof (cases "x = a")
    case True
    with Cons.prems p show ?thesis by (auto simp: statuses_for_def)
  next
    case False
    with Cons.prems p obtain rest' where
      t: "take_status a log = Some (e, rest')" and l: "log' = (x, f) # rest'"
      by (auto split: option.splits)
    from Cons.IH [OF t] False p l show ?thesis
      by (auto simp: statuses_for_def)
  qed
qed

lemma map_fst_recipient_statuses: "map fst (recipient_statuses rs log ret) = rs"
  by (induction rs arbitrary: log) (auto split: option.split)

lemma statuses_for_Cons:
  "statuses_for a ((x, e) # rest) = (if x = a then e # statuses_for a rest else statuses_for a rest)"
  by (simp add: statuses_for_def)

lemma statuses_for_recipient_statuses:
  "statuses_for a (recipient_statuses rs log ret) =
     take (count_list rs a) (statuses_for a log)
     @ replicate (count_list rs a - length (statuses_for a log)) ret"
proof (induction rs arbitrary: log)
  case Nil
  then show ?case by (simp add: statuses_for_def)
next
  case (Cons r rs)
  show ?case
  proof (cases "take_status r log")
    case None
    then have empty: "statuses_for r log = []"
      by (simp add: take_status_None)
    show ?thesis
    proof (cases "r = a")
      case True
      with None empty Cons.IH [of log] show ?thesis
        by (simp add: statuses_for_Cons replicate_app_Cons_same)
    next
      case False
      with None Cons.IH [of log] show ?thesis
        by (simp add: statuses_for_Cons)
    qed
  next
    case (Some q)
    obtain e log' where q: "q = (e, log')" by (cases q)
    from Some q have t: "take_status r log = Some (e, log')" by simp
    show ?thesis
    proof (cases "r = a")
      case True
      from take_status_Some [OF t] True have "statuses_for a log = e # statuses_for a log'"
        by simp
      with t True Cons.IH [of log'] show ?thesis
        by (simp add: statuses_for_Cons)
    next
      case False
      from take_status_Some [OF t, of a] False have "statuses_for a log' = statuses_for a log"
        by simp
      with t False Cons.IH [of log'] show ?thesis
        by (simp add: statuses_for_Cons)
    qed
  qed
qed

text \<open>
  Claim C3. Let \<^verbatim>\<open>LMTPData\<close> return \<open>ret\<close> after the \<^verbatim>\<open>SetStatus\<close> calls \<open>log\<close>.
  There is one outcome per recipient entry, in the order the recipients were added. An
  address for which no status was set has the return value as the outcome of each of its
  entries. In general the entries of an address take the statuses set for it, in order,
  and the entries left over take the return value. In the scenario of the specification
  (sender with the asserted identity \<open>alice\<close>, recipients \<open>bob\<close> and \<open>carol\<close>, a
  status "mailbox full" set for \<open>bob\<close> only, return value nil) \<open>bob\<close> is rejected with
  "mailbox full" and \<open>carol\<close> is accepted.
\<close>

theorem fallback_status:
  assumes "LMTPData d r SetStatus [] s = (ret, r', log, s')"
  shows "map fst (fst (submitBodyWithStatus d r s)) = recipients s
         \<and> (statuses_for a log = [] \<longrightarrow>
              statuses_for a (fst (submitBodyWithStatus d r s))
                = replicate (count_list (recipients s) a) ret)
         \<and> statuses_for a (fst (submitBodyWithStatus d r s))
             = take (count_list (recipients s) a) (statuses_for a log)
               @ replicate (count_list (recipients s) a - length (statuses_for a log)) ret
         \<and> fst (submitBodyWithStatus bob_mailbox_full [Chunk [104, 105]]
                  (add_recipients bob_mailbox_full [''bob'', ''carol'']
                     (snd (Mail bob_mailbox_full ''alice''
                             (Some (MailOptions_zero\<lparr>Auth := Some ''alice''\<rparr>))
                             (fst NewSession)))))
             = [(''bob'', Some (OtherError ''mailbox full'')), (''carol'', None)]"
proof -
  have out: "fst (submitBodyWithStatus d r s) = recipient_statuses (recipients s) log ret"
    using assms by (simp add: submitBodyWithStatus_def)
  have scenario:
    "fst (submitBodyWithStatus bob_mailbox_full [Chunk [104, 105]]
            (add_recipients bob_mailbox_full [''bob'', ''carol'']
               (snd (Mail bob_mailbox_full ''alice''
                       (Some (MailOptions_zero\<lparr>Auth := Some ''alice''\<rparr>))
                       (fst NewSession)))))
       = [(''bob'', Some (OtherError ''mailbox full'')), (''carol'', None)]"
    by (simp add: submitBodyWithStatus_def LMTPData_def ReadAll_Chunk ReadAll_Nil
        add_recipients_def Rcpt_def Mail_def NewSession_def bob_mailbox_full_def SetStatus_def)
  show ?thesis
    unfolding out
    using scenario
    by (simp add: map_fst_recipient_statuses statuses_for_recipient_statuses)
qed

theorem fallback_status_witness:
  "statuses_for ''carol''
     (fst (submitBodyWithStatus bob_mailbox_full [Chunk [104, 105]]
        \<lparr>return_path = Some ''alice'', mail_options = None,
         recipients = [''bob'', ''carol''], contents = []\<rparr>))
     = [None]
   \<and> statuses_for ''bob''
     (fst (submitBodyWithStatus bob_mailbox_full [Chunk [104, 105]]
        \<lparr>return_path = Some ''alice'', mail_options = None,
         recipients = [''bob'', ''carol''], contents = []\<rparr>))
     = [Some (OtherError ''mailbox full'')]"
proof -
  let ?s = "\<lparr>return_path = Some ''alice'', mail_options = None,
             recipients = [''bob'', ''carol''], contents = []\<rparr>"
  have run: "LMTPData bob_mailbox_full [Chunk [104, 105]] SetStatus [] ?s
      = (None, [], [(''bob'', Some (OtherError ''mailbox full''))], ?s\<lparr>contents := [104, 105]\<rparr>)"
    by (simp add: LMTPData_def ReadAll_Chunk ReadAll_Nil bob_mailbox_full_def SetStatus_def)
  show ?thesis
    using fallback_status [OF run, of "''carol''"] fallback_status [OF run, of "''bob''"]
    by (simp add: statuses_for_def)
qed

end
